theory Spec2Isabelle
  imports Complex_Main "HOL-Library.Sublist"
begin

section \<open>Strings\<close>

text \<open>
  A Python \<^verbatim>\<open>str\<close> is a sequence of Unicode code points: a list of natural numbers.
  The string literals of the source are ASCII, and \<open>ascii\<close> gives the code points of one.
\<close>

type_synonym str = "nat list"

definition ascii :: "string \<Rightarrow> str" where
  "ascii s = map of_char s"

text \<open>
  \<^verbatim>\<open>str.lower()\<close> belongs to Python and reads the tables of the Unicode database. It is
  not modelled: every function that calls it, directly or through another, takes it as the
  parameter \<open>lower\<close>, and what holds for every \<open>lower\<close> holds for Python's. Where a
  property needs a fact about \<^verbatim>\<open>str.lower()\<close>, the fact is a hypothesis. There are two:

  \<^item> \<open>lowers_ascii\<close>: on a text of ASCII code points only, \<^verbatim>\<open>A\<close> to \<^verbatim>\<open>Z\<close> (65 to
    90) become \<^verbatim>\<open>a\<close> to \<^verbatim>\<open>z\<close> and every other code point is kept;
  \<^item> \<open>lowers_after p\<close>: the lower-case form of \<open>p\<close> followed by a text ends with the
    lower-case form of that text. \<^verbatim>\<open>str.lower()\<close> maps code point by code point, except
    for the capital sigma U+03A3, whose image depends on the cased letters around it; so
    this holds of a \<open>p\<close> that ends in a space, as the marker of
    \<^verbatim>\<open>add_educational_context\<close> does: a space is neither cased nor ignored in the
    search for a cased letter, so what comes before it changes the image of no sigma
    after it.
\<close>

definition ascii_lower :: "nat \<Rightarrow> nat" where
  "ascii_lower c = (if 65 \<le> c \<and> c \<le> 90 then c + 32 else c)"

definition lowers_ascii :: "(str \<Rightarrow> str) \<Rightarrow> bool" where
  "lowers_ascii lower = (\<forall>s. list_all (\<lambda>c. c < 128) s \<longrightarrow> lower s = map ascii_lower s)"

definition lowers_after :: "str \<Rightarrow> (str \<Rightarrow> str) \<Rightarrow> bool" where
  "lowers_after p lower = (\<forall>t. suffix (lower t) (lower (p @ t)))"

text \<open>\<^verbatim>\<open>s.startswith(k)\<close> and the substring test \<^verbatim>\<open>k in s\<close> of Python strings.\<close>

fun startswith :: "str \<Rightarrow> str \<Rightarrow> bool" where
  "startswith s [] = True"
| "startswith [] (k # ks) = False"
| "startswith (c # cs) (k # ks) = (c = k \<and> startswith cs ks)"

fun str_in :: "str \<Rightarrow> str \<Rightarrow> bool" where
  "str_in k [] = (k = [])"
| "str_in k (c # cs) = (startswith (c # cs) k \<or> str_in k cs)"

text \<open>The built-in \<^verbatim>\<open>any\<close> over the values a generator yields.\<close>

fun any :: "bool list \<Rightarrow> bool" where
  "any [] = False"
| "any (b # bs) = (b \<or> any bs)"

text \<open>
  \<^verbatim>\<open>s.strip()\<close> removes the white space of Python at both ends: the code points for
  which \<^verbatim>\<open>str.isspace()\<close> is true.
\<close>

definition isspace :: "nat \<Rightarrow> bool" where
  "isspace c =
     ((0x09 \<le> c \<and> c \<le> 0x0D) \<or> (0x1C \<le> c \<and> c \<le> 0x20) \<or> c = 0x85 \<or> c = 0xA0 \<or>
      c = 0x1680 \<or> (0x2000 \<le> c \<and> c \<le> 0x200A) \<or> c = 0x2028 \<or> c = 0x2029 \<or>
      c = 0x202F \<or> c = 0x205F \<or> c = 0x3000)"

definition strip :: "str \<Rightarrow> str" where
  "strip s = rev (dropWhile isspace (rev (dropWhile isspace s)))"

section \<open>Cheating detection and educational context\<close>

definition cheating_keywords :: "str list" where
  "cheating_keywords =
     [ascii ''solve this'', ascii ''answer this'', ascii ''do my homework'',
      ascii ''just tell me'', ascii ''what's the answer'']"

definition detect_cheating_attempt :: "(str \<Rightarrow> str) \<Rightarrow> str \<Rightarrow> bool" where
  "detect_cheating_attempt lower user_message =
     any (map (\<lambda>k. str_in k (lower user_message)) cheating_keywords)"

text \<open>The text that the f-string of line 126 puts before the message.\<close>

definition guide_marker :: str where
  "guide_marker = ascii ''[GUIDE LEARNING] Student asking for direct answer: ''"

definition add_educational_context :: "(str \<Rightarrow> str) \<Rightarrow> str \<Rightarrow> str" where
  "add_educational_context lower user_message =
     (if detect_cheating_attempt lower user_message
      then guide_marker @ user_message
      else user_message)"

section \<open>Configuration and data model\<close>

text \<open>
  The process-wide settings read from the environment at start-up. Their values are not
  fixed by the source (only their defaults are), so they are a parameter of the model.
\<close>

record Config =
  MODEL_NAME :: str
  MAX_TOKENS :: int
  TEMPERATURE :: real
  TOP_P :: real
  TOP_K :: int

definition SYSTEM_PROMPT :: str where
  "SYSTEM_PROMPT =
     ascii
      (''You are an educational tutor. NEVER give direct answers to homework/tests. Instead:\<newline>\<newline>'' @
       ''1. Use analogies and real-world examples\<newline>'' @
       ''2. Ask guiding questions\<newline>'' @
       ''3. Give hints without conclusions\<newline>'' @
       ''4. Encourage discovery\<newline>\<newline>'' @
       ''If asked for direct answers, say: '' @ [CHR 0x22] @
       ''I can't give you the answer, but let me help you understand...'' @ [CHR 0x22] @
       ''\<newline>\<newline>Be concise, encouraging, and focus on learning concepts.'')"

record Message =
  role :: str
  content :: str

text \<open>
  A request after parsing: a field left out of the JSON body holds the default of the
  class (\<^verbatim>\<open>TEMPERATURE\<close>, \<^verbatim>\<open>MAX_TOKENS\<close>), an explicit \<^verbatim>\<open>null\<close> is \<open>None\<close>.
  The only operation of the code on the temperature is its truth value, so the float is
  modelled as a real number.
\<close>

record ChatRequest =
  messages :: "Message list"
  temperature :: "real option"
  max_tokens :: "int option"

record ChatResponse =
  response :: str
  tokens_used :: int
  model :: str

text \<open>
  A dictionary with string keys and values, in insertion order, and the two kinds of object
  that the lists of the \<^verbatim>\<open>/chat\<close> handler hold: instances of \<^verbatim>\<open>Message\<close> and
  plain dictionaries.
\<close>

type_synonym dict = "(str \<times> str) list"

datatype entry = MessageObj Message | DictObj dict

text \<open>
  Exceptions. \<open>ClientError\<close> stands for whatever the inference client raises, with the
  text \<^verbatim>\<open>str(e)\<close> gives for it.
\<close>

datatype exn =
    HTTPException nat str
  | AttributeError str
  | IndexError str
  | ClientError str

fun decimal :: "nat \<Rightarrow> str" where
  "decimal n = (if n < 10 then [48 + n] else decimal (n div 10) @ [48 + n mod 10])"

declare decimal.simps [simp del]

text \<open>
  \<^verbatim>\<open>str(e)\<close>: the message of a built-in exception, and \<^verbatim>\<open>"{status_code}: {detail}"\<close>
  for an \<^verbatim>\<open>HTTPException\<close>.
\<close>

fun str_exn :: "exn \<Rightarrow> str" where
  "str_exn (HTTPException status_code detail) = decimal status_code @ ascii '': '' @ detail"
| "str_exn (AttributeError msg) = msg"
| "str_exn (IndexError msg) = msg"
| "str_exn (ClientError msg) = msg"

definition bind_exn :: "exn + 'a \<Rightarrow> ('a \<Rightarrow> exn + 'b) \<Rightarrow> exn + 'b" where
  "bind_exn r f = (case r of Inl e \<Rightarrow> Inl e | Inr v \<Rightarrow> f v)"

section \<open>Lists and attributes as Python has them\<close>

text \<open>\<^verbatim>\<open>xs[i:]\<close>: a negative start counts from the end, and the start is clamped.\<close>

definition slice_from :: "int \<Rightarrow> 'a list \<Rightarrow> 'a list" where
  "slice_from i xs =
     (let n = int (length xs); start = (if i < 0 then max 0 (n + i) else min i n)
      in drop (nat start) xs)"

text \<open>
  The position that an index \<open>i\<close> names in a list of \<open>len\<close> elements: \<open>i\<close> itself from
  the front, \<open>len + i\<close> for a negative \<open>i\<close>, none outside \<open>- len \<le> i < len\<close>.
\<close>

definition position :: "nat \<Rightarrow> int \<Rightarrow> nat option" where
  "position len i =
     (if - int len \<le> i \<and> i < 0 then Some (nat (int len + i))
      else if 0 \<le> i \<and> i < int len then Some (nat i)
      else None)"

text \<open>\<^verbatim>\<open>xs[i]\<close> and \<^verbatim>\<open>xs[i] = v\<close>, which raise outside the list.\<close>

definition getitem :: "'a list \<Rightarrow> int \<Rightarrow> exn + 'a" where
  "getitem xs i =
     (case position (length xs) i of
        None \<Rightarrow> Inl (IndexError (ascii ''list index out of range''))
      | Some j \<Rightarrow> Inr (xs ! j))"

definition setitem :: "'a list \<Rightarrow> int \<Rightarrow> 'a \<Rightarrow> exn + 'a list" where
  "setitem xs i v =
     (case position (length xs) i of
        None \<Rightarrow> Inl (IndexError (ascii ''list assignment index out of range''))
      | Some j \<Rightarrow> Inr (xs[j := v]))"

text \<open>
  Attribute access \<^verbatim>\<open>msg.role\<close> and \<^verbatim>\<open>msg.content\<close>. A \<^verbatim>\<open>Message\<close> has both
  attributes; a dictionary has keys, not attributes, and the access raises. Code point 39
  is the single quote of the message.
\<close>

definition no_attribute :: "string \<Rightarrow> exn" where
  "no_attribute name =
     AttributeError
       ([39] @ ascii ''dict'' @ [39] @ ascii '' object has no attribute '' @
        [39] @ ascii name @ [39])"

fun get_role :: "entry \<Rightarrow> exn + str" where
  "get_role (MessageObj m) = Inr (role m)"
| "get_role (DictObj d) = Inl (no_attribute ''role'')"

fun get_content :: "entry \<Rightarrow> exn + str" where
  "get_content (MessageObj m) = Inr (content m)"
| "get_content (DictObj d) = Inl (no_attribute ''content'')"

text \<open>Truth value of an optional number in \<^verbatim>\<open>x or default\<close>: \<open>None\<close> and zero are false.\<close>

definition py_or :: "'a::zero option \<Rightarrow> 'a \<Rightarrow> 'a" where
  "py_or x d = (case x of None \<Rightarrow> d | Some v \<Rightarrow> if v = 0 then d else v)"

section \<open>Formatting the conversation\<close>

text \<open>
  The loop of \<^verbatim>\<open>format_messages_for_huggingface\<close>: \<open>formatted\<close> is the list built so
  far. The first attribute access that raises ends the function.
\<close>

fun format_loop :: "entry list \<Rightarrow> dict list \<Rightarrow> exn + dict list" where
  "format_loop [] formatted = Inr formatted"
| "format_loop (msg # rest) formatted =
     bind_exn (get_role msg) (\<lambda>r.
     bind_exn (get_content msg) (\<lambda>c.
       format_loop rest (formatted @ [[(ascii ''role'', r), (ascii ''content'', c)]])))"

definition format_messages_for_huggingface :: "entry list \<Rightarrow> exn + dict list" where
  "format_messages_for_huggingface msgs =
     format_loop msgs [[(ascii ''role'', ascii ''system''), (ascii ''content'', SYSTEM_PROMPT)]]"

section \<open>The chat endpoint\<close>

text \<open>Line 161: the messages kept for the call.\<close>

definition recent_messages :: "Message list \<Rightarrow> Message list" where
  "recent_messages msgs = (if length msgs > 3 then slice_from (- 3) msgs else msgs)"

text \<open>
  Lines 149 to 165: the two checks, the enhanced text, the copy of the recent messages and
  the assignment to its last position. The copy holds the \<^verbatim>\<open>Message\<close> objects of the
  request; the value assigned is a dictionary literal. The result is the list that line 171
  hands on.
\<close>

definition modified_messages :: "(str \<Rightarrow> str) \<Rightarrow> Message list \<Rightarrow> exn + entry list" where
  "modified_messages lower msgs =
     (if msgs = [] then Inl (HTTPException 400 (ascii ''No messages provided''))
      else bind_exn (getitem msgs (- 1)) (\<lambda>last_message.
        if role last_message \<noteq> ascii ''user''
        then Inl (HTTPException 400 (ascii ''Last message must be from user''))
        else
          let enhanced_message = add_educational_context lower (content last_message);
              modified = map MessageObj (recent_messages msgs)
          in setitem modified (- 1)
               (DictObj [(ascii ''role'', ascii ''user''),
                         (ascii ''content'', enhanced_message)])))"

text \<open>
  The inference client is outside the repository: it is a parameter, a function from the
  arguments of \<^verbatim>\<open>chat_completion\<close> to an exception or the fields of the reply that the
  handler reads (the content of each choice, and the completion token count).
\<close>

record ChatCompletionArgs =
  cc_messages :: "dict list"
  cc_max_tokens :: int
  cc_temperature :: real
  cc_top_p :: real
  cc_top_k :: int

record ChatCompletionOutput =
  choices :: "str list"
  completion_tokens :: int

type_synonym inference_client = "ChatCompletionArgs \<Rightarrow> exn + ChatCompletionOutput"

text \<open>
  The call of lines 170 to 176. Python evaluates the keyword arguments in order, so the
  formatting runs, and may raise, before anything else.
\<close>

definition chat_completion_call ::
  "Config \<Rightarrow> inference_client \<Rightarrow> ChatRequest \<Rightarrow> entry list \<Rightarrow> exn + ChatCompletionOutput" where
  "chat_completion_call cfg client request modified =
     bind_exn (format_messages_for_huggingface modified) (\<lambda>formatted.
       client \<lparr>cc_messages = formatted,
               cc_max_tokens = py_or (max_tokens request) (MAX_TOKENS cfg),
               cc_temperature = py_or (temperature request) (TEMPERATURE cfg),
               cc_top_p = TOP_P cfg,
               cc_top_k = TOP_K cfg\<rparr>)"

text \<open>The body of the \<^verbatim>\<open>try\<close> block of \<^verbatim>\<open>chat\<close>.\<close>

definition chat_try ::
  "(str \<Rightarrow> str) \<Rightarrow> Config \<Rightarrow> inference_client \<Rightarrow> ChatRequest \<Rightarrow> exn + ChatResponse" where
  "chat_try lower cfg client request =
     bind_exn (modified_messages lower (messages request)) (\<lambda>modified.
     bind_exn (chat_completion_call cfg client request modified) (\<lambda>out.
     bind_exn (getitem (choices out) 0) (\<lambda>text.
       Inr \<lparr>response = strip text,
            tokens_used = completion_tokens out,
            model = MODEL_NAME cfg\<rparr>)))"

text \<open>
  The handlers of \<^verbatim>\<open>chat\<close>: an \<^verbatim>\<open>HTTPException\<close> is raised again as it is, any other
  exception becomes status 500.
\<close>

fun chat_except :: "exn \<Rightarrow> exn" where
  "chat_except (HTTPException status_code detail) = HTTPException status_code detail"
| "chat_except e = HTTPException 500 (ascii ''Internal server error: '' @ str_exn e)"

definition chat ::
  "(str \<Rightarrow> str) \<Rightarrow> Config \<Rightarrow> inference_client \<Rightarrow> ChatRequest \<Rightarrow> exn + ChatResponse" where
  "chat lower cfg client request =
     (case chat_try lower cfg client request of
        Inl e \<Rightarrow> Inl (chat_except e)
      | Inr r \<Rightarrow> Inr r)"

section \<open>The analyze-question endpoint\<close>

record Analysis =
  is_direct_answer_request :: bool
  recommendation :: str

definition analyze_question_try :: "(str \<Rightarrow> str) \<Rightarrow> ChatRequest \<Rightarrow> exn + Analysis" where
  "analyze_question_try lower request =
     (if messages request = [] then Inl (HTTPException 400 (ascii ''No messages provided''))
      else bind_exn (getitem (messages request) (- 1)) (\<lambda>m.
        let last_message = content m;
            is_cheating = detect_cheating_attempt lower last_message
        in Inr \<lparr>is_direct_answer_request = is_cheating,
                recommendation =
                  (if is_cheating then ascii ''Reframe as learning opportunity''
                   else ascii ''Safe to answer educationally'')\<rparr>))"

text \<open>
  The only handler of \<^verbatim>\<open>analyze_question\<close> is \<^verbatim>\<open>except Exception\<close>, which also
  catches the \<^verbatim>\<open>HTTPException\<close> raised inside the \<^verbatim>\<open>try\<close> block.
\<close>

definition analyze_question :: "(str \<Rightarrow> str) \<Rightarrow> ChatRequest \<Rightarrow> exn + Analysis" where
  "analyze_question lower request =
     (case analyze_question_try lower request of
        Inl e \<Rightarrow> Inl (HTTPException 500 (str_exn e))
      | Inr r \<Rightarrow> Inr r)"

section \<open>The objects of a request in a store\<close>

text \<open>
  Python lists and objects are shared by reference, and \<^verbatim>\<open>chat\<close> assigns into a list.
  To say what that assignment can reach, the same lines are modelled over a store: a list of
  objects addressed by position. A list object holds the addresses of its elements; a new
  object is put at the end of the store.
\<close>

datatype obj = EntryObj entry | ListObj "nat list"

type_synonym store = "obj list"

definition alloc :: "store \<Rightarrow> obj \<Rightarrow> store \<times> nat" where
  "alloc h ob = (h @ [ob], length h)"

text \<open>
  Reading a list or an entry at an address. In a store where every reference leads to an
  object of the expected kind (see \<open>valid_request\<close>) the last branches are never taken.
\<close>

definition list_at :: "store \<Rightarrow> nat \<Rightarrow> nat list" where
  "list_at h a =
     (if a < length h then (case h ! a of ListObj rs \<Rightarrow> rs | EntryObj e \<Rightarrow> []) else [])"

definition entry_at :: "store \<Rightarrow> nat \<Rightarrow> entry" where
  "entry_at h a =
     (if a < length h then (case h ! a of EntryObj e \<Rightarrow> e | ListObj rs \<Rightarrow> DictObj [])
      else DictObj [])"

fun is_message :: "obj \<Rightarrow> bool" where
  "is_message (EntryObj (MessageObj m)) = True"
| "is_message ob = False"

text \<open>
  What the parser hands to a handler: \<open>a\<close> is the address of \<^verbatim>\<open>request.messages\<close>, a list
  whose elements are \<^verbatim>\<open>Message\<close> objects of the store.
\<close>

definition valid_request :: "store \<Rightarrow> nat \<Rightarrow> bool" where
  "valid_request h a =
     (a < length h \<and>
      (case h ! a of
         ListObj rs \<Rightarrow> list_all (\<lambda>r. r < length h \<and> is_message (h ! r)) rs
       | EntryObj e \<Rightarrow> False))"

text \<open>
  Lines 149 to 165 over the store. The slice and the copy are new lists; for three messages
  or fewer \<open>recent_messages\<close> is the list of the request itself. The result is the store
  at the end (also when an exception is raised) and the address of \<open>modified_messages\<close>.
\<close>

definition modified_messages_store ::
  "(str \<Rightarrow> str) \<Rightarrow> store \<Rightarrow> nat \<Rightarrow> store \<times> (exn + nat)" where
  "modified_messages_store lower h a =
     (let msgs = list_at h a in
      if msgs = [] then (h, Inl (HTTPException 400 (ascii ''No messages provided'')))
      else
        case getitem msgs (- 1) of
          Inl e \<Rightarrow> (h, Inl e)
        | Inr last_message \<Rightarrow>
            (case get_role (entry_at h last_message) of
               Inl e \<Rightarrow> (h, Inl e)
             | Inr r \<Rightarrow>
                 if r \<noteq> ascii ''user''
                 then (h, Inl (HTTPException 400 (ascii ''Last message must be from user'')))
                 else
                   (case get_content (entry_at h last_message) of
                      Inl e \<Rightarrow> (h, Inl e)
                    | Inr c \<Rightarrow>
                        let enhanced_message = add_educational_context lower c;
                            (h1, recent) =
                              (if length msgs > 3 then alloc h (ListObj (slice_from (- 3) msgs))
                               else (h, a));
                            (h2, modified) = alloc h1 (ListObj (list_at h1 recent));
                            (h3, d) =
                              alloc h2
                                (EntryObj
                                  (DictObj [(ascii ''role'', ascii ''user''),
                                            (ascii ''content'', enhanced_message)]))
                        in
                          (case setitem (list_at h3 modified) (- 1) d of
                             Inl e \<Rightarrow> (h3, Inl e)
                           | Inr xs \<Rightarrow> (h3[modified := ListObj xs], Inr modified)))))"

text \<open>
  \<^verbatim>\<open>format_messages_for_huggingface\<close> over the store: \<open>formatted\<close> is the address of
  the list being built, and \<^verbatim>\<open>append\<close> assigns to that list only.
\<close>

fun format_loop_store :: "store \<Rightarrow> nat list \<Rightarrow> nat \<Rightarrow> store \<times> (exn + nat)" where
  "format_loop_store h [] formatted = (h, Inr formatted)"
| "format_loop_store h (msg # rest) formatted =
     (case get_role (entry_at h msg) of
        Inl e \<Rightarrow> (h, Inl e)
      | Inr r \<Rightarrow>
          (case get_content (entry_at h msg) of
             Inl e \<Rightarrow> (h, Inl e)
           | Inr c \<Rightarrow>
               let (h1, d) =
                     alloc h (EntryObj (DictObj [(ascii ''role'', r), (ascii ''content'', c)]));
                   h2 = h1[formatted := ListObj (list_at h1 formatted @ [d])]
               in format_loop_store h2 rest formatted))"

definition format_messages_for_huggingface_store ::
  "store \<Rightarrow> nat \<Rightarrow> store \<times> (exn + nat)" where
  "format_messages_for_huggingface_store h messages_addr =
     (let (h1, d) =
            alloc h
              (EntryObj
                (DictObj [(ascii ''role'', ascii ''system''), (ascii ''content'', SYSTEM_PROMPT)]));
          (h2, formatted) = alloc h1 (ListObj [d])
      in format_loop_store h2 (list_at h2 messages_addr) formatted)"

text \<open>
  \<^verbatim>\<open>chat\<close> over the store, up to the first argument of the call to the client: every
  statement of the handler that reads or writes an object of the request.
\<close>

definition chat_store :: "(str \<Rightarrow> str) \<Rightarrow> store \<Rightarrow> nat \<Rightarrow> store \<times> (exn + nat)" where
  "chat_store lower h a =
     (case modified_messages_store lower h a of
        (h', Inl e) \<Rightarrow> (h', Inl e)
      | (h', Inr modified) \<Rightarrow> format_messages_for_huggingface_store h' modified)"

section \<open>Example inputs\<close>

text \<open>
  A function in the place of \<^verbatim>\<open>str.lower()\<close> for the examples: it lowers the ASCII
  letters and the Kelvin sign U+212A, which \<^verbatim>\<open>str.lower()\<close> maps to \<^verbatim>\<open>k\<close>, and keeps
  every other code point. On the texts of the examples it gives what Python gives.
\<close>

definition example_lower :: "str \<Rightarrow> str" where
  "example_lower s = map (\<lambda>c. if c = 0x212A then 0x6B else ascii_lower c) s"

text \<open>The defaults of the source for the settings, a client that answers, and some requests.\<close>

definition example_config :: Config where
  "example_config =
     \<lparr>MODEL_NAME = ascii ''Qwen/Qwen2.5-1.5B-Instruct'', MAX_TOKENS = 512, TEMPERATURE = 0.5,
      TOP_P = 0.8, TOP_K = 30\<rparr>"

definition example_client :: inference_client where
  "example_client args =
     Inr \<lparr>choices = [ascii '' Let us think about it. ''], completion_tokens = 7\<rparr>"

definition user_message :: "string \<Rightarrow> Message" where
  "user_message c = \<lparr>role = ascii ''user'', content = ascii c\<rparr>"

definition assistant_message :: "string \<Rightarrow> Message" where
  "assistant_message c = \<lparr>role = ascii ''assistant'', content = ascii c\<rparr>"

definition request_of :: "Message list \<Rightarrow> ChatRequest" where
  "request_of ms = \<lparr>messages = ms, temperature = Some 0.5, max_tokens = Some 512\<rparr>"

definition homework_question :: string where
  "homework_question = ''What's the answer to this homework question?''"

definition zero_request :: ChatRequest where
  "zero_request =
     \<lparr>messages = [user_message ''hi''], temperature = Some 0, max_tokens = Some 0\<rparr>"

definition example_store :: store where
  "example_store =
     [EntryObj (MessageObj (user_message ''hello'')),
      EntryObj (MessageObj (assistant_message ''hi, what are you studying?'')),
      EntryObj (MessageObj (user_message ''just tell me the result'')),
      ListObj [0, 1, 2]]"

section \<open>Properties of the helper functions\<close>

lemma startswith_prefix: "startswith s k \<longleftrightarrow> prefix k s"
  by (induction s k rule: startswith.induct) auto

lemma str_in_sublist: "str_in k s \<longleftrightarrow> sublist k s"
  by (induction s) (auto simp: startswith_prefix sublist_Cons_right)

lemma any_map: "any (map P xs) \<longleftrightarrow> (\<exists>x \<in> set xs. P x)"
  by (induction xs) auto

lemma sublist_append_right: "sublist k b \<Longrightarrow> sublist k (a @ b)"
  by (auto simp: sublist_def) (metis append.assoc)

lemma detect_cheating_attempt_sublist:
  "detect_cheating_attempt lower t \<longleftrightarrow> (\<exists>k \<in> set cheating_keywords. sublist k (lower t))"
  by (simp add: detect_cheating_attempt_def any_map str_in_sublist)

lemma detect_after:
  assumes "lowers_after p lower" and "detect_cheating_attempt lower t"
  shows "detect_cheating_attempt lower (p @ t)"
proof -
  from assms(2) obtain k where k: "k \<in> set cheating_keywords" "sublist k (lower t)"
    by (auto simp: detect_cheating_attempt_sublist)
  from assms(1) obtain zs where "lower (p @ t) = zs @ lower t"
    by (auto simp: lowers_after_def suffix_def)
  with k(2) have "sublist k (lower (p @ t))"
    by (simp add: sublist_append_right)
  with k(1) show ?thesis
    by (auto simp: detect_cheating_attempt_sublist)
qed

text \<open>
  The function of the examples has both properties of \<^verbatim>\<open>str.lower()\<close>, the second for
  every start of a text.
\<close>

lemma example_lower_ascii: "lowers_ascii example_lower"
  unfolding lowers_ascii_def example_lower_def
  by (auto simp: list_all_iff)

lemma example_lower_after: "lowers_after p example_lower"
  by (simp add: lowers_after_def example_lower_def suffix_def)

lemma lowers_ascii_eval:
  assumes "lowers_ascii lower" and "list_all (\<lambda>c. c < 128) s"
  shows "lower s = map ascii_lower s"
  using assms by (simp add: lowers_ascii_def)

lemma slice_from_last3: "length xs > 3 \<Longrightarrow> slice_from (- 3) xs = drop (length xs - 3) xs"
  by (simp add: slice_from_def Let_def nat_diff_distrib' max_def)

lemma recent_messages_short: "length msgs \<le> 3 \<Longrightarrow> recent_messages msgs = msgs"
  by (simp add: recent_messages_def)

lemma recent_messages_long: "length msgs > 3 \<Longrightarrow> recent_messages msgs = drop (length msgs - 3) msgs"
  by (simp add: recent_messages_def slice_from_last3)

lemma recent_messages_length: "length (recent_messages msgs) = min 3 (length msgs)"
  by (cases "length msgs > 3") (simp_all add: recent_messages_long recent_messages_short)

lemma recent_messages_nonempty: "msgs \<noteq> [] \<Longrightarrow> recent_messages msgs \<noteq> []"
  using recent_messages_length[of msgs] by (cases msgs) auto

lemma recent_messages_last: "msgs \<noteq> [] \<Longrightarrow> last (recent_messages msgs) = last msgs"
  by (cases "length msgs > 3") (simp_all add: recent_messages_long recent_messages_short)

lemma position_last: "0 < len \<Longrightarrow> position len (- 1) = Some (len - 1)"
  by (auto simp: position_def nat_diff_distrib')

lemma getitem_last: "xs \<noteq> [] \<Longrightarrow> getitem xs (- 1) = Inr (last xs)"
  by (simp add: getitem_def position_last last_conv_nth)

lemma setitem_last: "xs \<noteq> [] \<Longrightarrow> setitem xs (- 1) v = Inr (butlast xs @ [v])"
  by (cases xs rule: rev_cases) (simp_all add: setitem_def position_last)

lemma modified_messages_valid:
  assumes "msgs \<noteq> []" "role (last msgs) = ascii ''user''"
  shows "modified_messages lower msgs =
     Inr (map MessageObj (butlast (recent_messages msgs)) @
       [DictObj [(ascii ''role'', ascii ''user''), (ascii ''content'', add_educational_context lower (content (last msgs)))]])"
  using assms recent_messages_nonempty[OF assms(1)]
  by (simp add: modified_messages_def getitem_last bind_exn_def setitem_last Let_def map_butlast)

lemma format_loop_dict:
  "format_loop (map MessageObj ms @ DictObj d # rest) formatted = Inl (no_attribute ''role'')"
  by (induction ms arbitrary: formatted) (simp_all add: bind_exn_def)

lemma format_loop_messages:
  "format_loop (map MessageObj ms) formatted =
     Inr (formatted @ map (\<lambda>m. [(ascii ''role'', role m), (ascii ''content'', content m)]) ms)"
  by (induction ms arbitrary: formatted) (simp_all add: bind_exn_def)

lemma chat_try_valid:
  assumes "messages request \<noteq> []" "role (last (messages request)) = ascii ''user''"
  shows "chat_try lower cfg client request = Inl (no_attribute ''role'')"
  by (simp add: chat_try_def modified_messages_valid[OF assms] bind_exn_def
      chat_completion_call_def format_messages_for_huggingface_def format_loop_dict)

lemma chat_valid:
  assumes "messages request \<noteq> []" "role (last (messages request)) = ascii ''user''"
  shows "chat lower cfg client request =
    Inl (HTTPException 500 (ascii ''Internal server error: '' @ str_exn (no_attribute ''role'')))"
  by (simp add: chat_def chat_try_valid[OF assms] no_attribute_def)

lemma chat_empty:
  "messages request = [] \<Longrightarrow> chat lower cfg client request = Inl (HTTPException 400 (ascii ''No messages provided''))"
  by (simp add: chat_def chat_try_def modified_messages_def bind_exn_def)

lemma chat_not_user:
  "messages request \<noteq> [] \<Longrightarrow> role (last (messages request)) \<noteq> ascii ''user'' \<Longrightarrow>
   chat lower cfg client request = Inl (HTTPException 400 (ascii ''Last message must be from user''))"
  by (simp add: chat_def chat_try_def modified_messages_def bind_exn_def getitem_last)

lemma format_messages_for_huggingface_messages:
  "format_messages_for_huggingface (map MessageObj msgs) =
     Inr ([(ascii ''role'', ascii ''system''), (ascii ''content'', SYSTEM_PROMPT)] #
          map (\<lambda>m. [(ascii ''role'', role m), (ascii ''content'', content m)]) msgs)"
  by (simp add: format_messages_for_huggingface_def format_loop_messages)

lemma modified_messages_Inr:
  assumes "modified_messages lower msgs = Inr modified"
  shows "msgs \<noteq> [] \<and> role (last msgs) = ascii ''user''"
proof -
  have ne: "msgs \<noteq> []" using assms by (auto simp: modified_messages_def)
  moreover have "role (last msgs) = ascii ''user''"
    using assms ne by (auto simp: modified_messages_def getitem_last bind_exn_def split: if_splits)
  ultimately show ?thesis by simp
qed

lemma ascii_append: "ascii (a @ b) = ascii a @ ascii b"
  by (simp add: ascii_def)

lemma assistant_not_user: "ascii ''assistant'' \<noteq> ascii ''user''"
  by (simp add: ascii_def)

lemma detect_ascii:
  assumes "lowers_ascii lower" and "list_all (\<lambda>c. c < 128) s"
  shows "detect_cheating_attempt lower s = detect_cheating_attempt (map ascii_lower) s"
  by (simp add: detect_cheating_attempt_def lowers_ascii_eval[OF assms])

lemma detect_just_tell_me:
  "list_all (\<lambda>c. c < 128) (ascii ''Just Tell Me the answer'')"
  "detect_cheating_attempt (map ascii_lower) (ascii ''Just Tell Me the answer'')"
  by code_simp+

lemma detect_photosynthesis:
  "list_all (\<lambda>c. c < 128) (ascii ''How does photosynthesis work?'')"
  "\<not> detect_cheating_attempt (map ascii_lower) (ascii ''How does photosynthesis work?'')"
  by code_simp+

lemma detect_homework_question:
  "list_all (\<lambda>c. c < 128) (ascii homework_question)"
  "detect_cheating_attempt (map ascii_lower) (ascii homework_question)"
  by code_simp+

lemma example_lower_kelvin:
  "example_lower (ascii ''do my homewor'' @ [0x212A]) = ascii ''do my homework''"
  by code_simp

lemma add_educational_context_plain:
  "add_educational_context example_lower (ascii ''hi'') = ascii ''hi''"
  "add_educational_context example_lower (ascii ''c'') = ascii ''c''"
  "add_educational_context example_lower (ascii ''e'') = ascii ''e''"
  by code_simp+


section \<open>Properties of the store model\<close>

text \<open>
  New objects go to the end of the store and the only assignments are to lists made by the
  handler, so the store before the call is a prefix of the store after it. On a conversation
  that passes the two checks the store model computes the list of the value model, and ends
  in the same exception.
\<close>

lemma alloc_prefix: "alloc h ob = (h', a) \<Longrightarrow> prefix h h' \<and> a = length h \<and> length h' = Suc (length h)"
  by (auto simp: alloc_def)

lemma prefix_update_fresh: "prefix h h' \<Longrightarrow> length h \<le> m \<Longrightarrow> prefix h (h'[m := v])"
  by (auto simp: prefix_def list_update_append)

lemma modified_messages_store_prefix: "prefix h (fst (modified_messages_store lower h a))"
  by (auto simp: modified_messages_store_def Let_def alloc_def prefix_def list_update_append
      split: sum.splits prod.splits if_splits)

lemma modified_messages_store_fresh:
  "modified_messages_store lower h a = (h', Inr m) \<Longrightarrow> length h \<le> m \<and> m < length h'"
  by (auto simp: modified_messages_store_def Let_def alloc_def
      split: sum.splits prod.splits if_splits)

lemma format_loop_store_prefix:
  "length h0 \<le> formatted \<Longrightarrow> prefix h0 h \<Longrightarrow> prefix h0 (fst (format_loop_store h rs formatted))"
proof (induction rs arbitrary: h)
  case Nil
  then show ?case by simp
next
  case (Cons r rs)
  show ?case
  proof (cases "get_role (entry_at h r)")
    case (Inl e)
    then show ?thesis using Cons.prems by simp
  next
    case (Inr ro)
    note ro = this
    show ?thesis
    proof (cases "get_content (entry_at h r)")
      case (Inl e)
      then show ?thesis using Cons.prems ro by simp
    next
      case (Inr c)
      let ?h1 = "h @ [EntryObj (DictObj [(ascii ''role'', ro), (ascii ''content'', c)])]"
      let ?h2 = "?h1[formatted := ListObj (list_at ?h1 formatted @ [length h])]"
      have "prefix h0 ?h1" using Cons.prems(2) by simp
      then have "prefix h0 ?h2" using Cons.prems(1) by (rule prefix_update_fresh)
      from Cons.IH[OF Cons.prems(1) this] show ?thesis
        using ro Inr by (simp add: alloc_def)
    qed
  qed
qed

lemma format_messages_for_huggingface_store_prefix:
  "prefix h (fst (format_messages_for_huggingface_store h m))"
  unfolding format_messages_for_huggingface_store_def alloc_def Let_def prod.case
  by (rule format_loop_store_prefix) (simp_all add: prefix_def)

lemma chat_store_prefix: "prefix h (fst (chat_store lower h a))"
proof (cases "modified_messages_store lower h a")
  case (Pair h' r)
  then have p: "prefix h h'" using modified_messages_store_prefix[of h lower a] by simp
  show ?thesis
  proof (cases r)
    case (Inl e)
    then show ?thesis using Pair p by (simp add: chat_store_def)
  next
    case (Inr m)
    have "prefix h' (fst (format_messages_for_huggingface_store h' m))"
      by (rule format_messages_for_huggingface_store_prefix)
    with p have "prefix h (fst (format_messages_for_huggingface_store h' m))"
      by (rule prefix_order.trans)
    then show ?thesis using Pair Inr by (simp add: chat_store_def)
  qed
qed

lemma prefix_nth: "prefix h h' \<Longrightarrow> p < length h \<Longrightarrow> h' ! p = h ! p"
  by (auto simp: prefix_def nth_append)

lemma prefix_list_at: "prefix h h' \<Longrightarrow> a < length h \<Longrightarrow> list_at h' a = list_at h a"
  by (auto simp: prefix_def list_at_def nth_append)

lemma prefix_entry_at: "prefix h h' \<Longrightarrow> a < length h \<Longrightarrow> entry_at h' a = entry_at h a"
  by (auto simp: prefix_def entry_at_def nth_append)

lemma entry_at_message: "entry_at h r = MessageObj m \<Longrightarrow> r < length h"
  by (auto simp: entry_at_def split: if_splits)

lemma slice_from_map: "slice_from i (map f xs) = map f (slice_from i xs)"
  by (simp add: slice_from_def Let_def drop_map)

lemma modified_messages_store_valid:
  assumes a: "a < length h"
    and refs: "map (entry_at h) (list_at h a) = map MessageObj msgs"
    and ne: "msgs \<noteq> []" and user: "role (last msgs) = ascii ''user''"
  shows "\<exists>h' m. modified_messages_store lower h a = (h', Inr m) \<and>
     map (entry_at h') (list_at h' m) =
       map MessageObj (butlast (recent_messages msgs)) @
         [DictObj [(ascii ''role'', ascii ''user''),
                   (ascii ''content'', add_educational_context lower (content (last msgs)))]]"
proof -
  let ?refs = "list_at h a"
  let ?d = "EntryObj (DictObj [(ascii ''role'', ascii ''user''),
                   (ascii ''content'', add_educational_context lower (content (last msgs)))])"
  have len: "length ?refs = length msgs" using refs by (metis length_map)
  then have rne: "?refs \<noteq> []" using ne by auto
  have "entry_at h (last ?refs) = MessageObj (last msgs)"
    using refs rne ne by (metis last_map)
  then have last_role: "get_role (entry_at h (last ?refs)) = Inr (role (last msgs))"
    and last_content: "get_content (entry_at h (last ?refs)) = Inr (content (last msgs))"
    by simp_all
  define rs where "rs = (if length ?refs > 3 then slice_from (- 3) ?refs else ?refs)"
  define h1 where "h1 = (if length ?refs > 3 then h @ [ListObj rs] else h)"
  define modified where "modified = length h1"
  define h3 where "h3 = h1 @ [ListObj rs, ?d]"
  define h' where "h' = h3[modified := ListObj (butlast rs @ [Suc modified])]"
  have rs_map: "map (entry_at h) rs = map MessageObj (recent_messages msgs)"
    using refs len by (simp add: rs_def recent_messages_def slice_from_map[symmetric])
  then have rs_len: "length rs = length (recent_messages msgs)" by (metis length_map)
  then have rs_ne: "rs \<noteq> []" using recent_messages_nonempty[OF ne] by auto
  have p1: "prefix h h1" by (simp add: h1_def)
  have recent: "list_at h1 (if length ?refs > 3 then length h else a) = rs"
    using a by (auto simp: h1_def rs_def list_at_def nth_append)
  have l3: "list_at h3 modified = rs"
    by (simp add: h3_def modified_def list_at_def nth_append)
  have run: "modified_messages_store lower h a = (h', Inr modified)"
  proof (cases "length ?refs > 3")
    case True
    then have "rs = slice_from (- 3) ?refs" by (simp add: rs_def)
    then show ?thesis
      using True rne last_role last_content user rs_ne
      by (simp add: modified_messages_store_def Let_def getitem_last alloc_def setitem_last
          h'_def h3_def modified_def h1_def list_at_def[of "_ @ _"] nth_append)
  next
    case False
    then have "rs = ?refs" by (simp add: rs_def)
    then show ?thesis
      using False rne last_role last_content user rs_ne
      by (simp add: modified_messages_store_def Let_def getitem_last alloc_def setitem_last
          h'_def h3_def modified_def h1_def list_at_def[of "_ @ _"] nth_append)
  qed
  have lm: "list_at h' modified = butlast rs @ [Suc modified]"
    by (simp add: h'_def h3_def modified_def list_at_def)
  have ed: "entry_at h' (Suc modified) =
      DictObj [(ascii ''role'', ascii ''user''), (ascii ''content'', add_educational_context lower (content (last msgs)))]"
    by (simp add: h'_def h3_def modified_def entry_at_def nth_append)
  have ph: "prefix h h'"
    unfolding h'_def h3_def using p1
    by (intro prefix_update_fresh prefix_prefix) (auto simp: modified_def dest: prefix_length_le)
  have "map (entry_at h') (butlast rs) = map (entry_at h) (butlast rs)"
  proof (rule map_cong[OF refl])
    fix x assume "x \<in> set (butlast rs)"
    then have "x \<in> set rs" by (rule in_set_butlastD)
    then have "entry_at h x \<in> set (map MessageObj (recent_messages msgs))"
      using rs_map by (metis image_eqI set_map)
    then obtain m where "entry_at h x = MessageObj m" by auto
    then have "x < length h" by (rule entry_at_message)
    with ph show "entry_at h' x = entry_at h x" by (rule prefix_entry_at)
  qed
  also have "\<dots> = map MessageObj (butlast (recent_messages msgs))"
    using rs_map by (simp add: map_butlast)
  finally have "map (entry_at h') (list_at h' modified) =
       map MessageObj (butlast (recent_messages msgs)) @
         [DictObj [(ascii ''role'', ascii ''user''),
                   (ascii ''content'', add_educational_context lower (content (last msgs)))]]"
    by (simp add: lm ed)
  with run show ?thesis by blast
qed

lemma valid_request_addr: "valid_request h a \<Longrightarrow> a < length h"
  by (simp add: valid_request_def)

lemma valid_request_refs: "valid_request h a \<Longrightarrow> r \<in> set (list_at h a) \<Longrightarrow> r < length h"
proof -
  assume v: "valid_request h a" and r: "r \<in> set (list_at h a)"
  show ?thesis
  proof (cases "h ! a")
    case (EntryObj e)
    then show ?thesis using v by (simp add: valid_request_def)
  next
    case (ListObj rs)
    then show ?thesis using v r by (simp add: valid_request_def list_at_def list_all_iff)
  qed
qed

lemma entry_at_in_range: "entry_at h r \<noteq> DictObj [] \<Longrightarrow> r < length h"
  by (auto simp: entry_at_def split: if_splits)

lemma entry_at_append_update:
  "r < length h \<Longrightarrow> r \<noteq> f \<Longrightarrow> entry_at ((h @ xs)[f := ob]) r = entry_at h r"
  by (simp add: entry_at_def nth_append)

lemma format_loop_store_dict:
  assumes "\<forall>r \<in> set rs. r < length h \<and> r \<noteq> f"
    and "map (entry_at h) rs = map MessageObj ms @ DictObj d # rest"
  shows "snd (format_loop_store h rs f) = Inl (no_attribute ''role'')"
  using assms
proof (induction ms arbitrary: h rs)
  case Nil
  then obtain r rs' where "rs = r # rs'" "entry_at h r = DictObj d" by auto
  then show ?case by simp
next
  case (Cons m ms)
  from Cons.prems(2) obtain r rs' where rs: "rs = r # rs'"
    and r: "entry_at h r = MessageObj m"
    and rs': "map (entry_at h) rs' = map MessageObj ms @ DictObj d # rest"
    by auto
  let ?h1 = "h @ [EntryObj (DictObj [(ascii ''role'', role m), (ascii ''content'', content m)])]"
  let ?h2 = "?h1[f := ListObj (list_at ?h1 f @ [length h])]"
  have range: "\<forall>r \<in> set rs'. r < length ?h2 \<and> r \<noteq> f"
    using Cons.prems(1) rs by auto
  have "map (entry_at ?h2) rs' = map (entry_at h) rs'"
    using Cons.prems(1) rs by (intro map_cong[OF refl] entry_at_append_update) auto
  with rs' have "map (entry_at ?h2) rs' = map MessageObj ms @ DictObj d # rest" by simp
  from Cons.IH[OF range this] show ?case
    using rs r by (simp add: alloc_def)
qed

lemma chat_store_valid:
  assumes a: "a < length h"
    and refs: "map (entry_at h) (list_at h a) = map MessageObj msgs"
    and ne: "msgs \<noteq> []" and user: "role (last msgs) = ascii ''user''"
  shows "snd (chat_store lower h a) = Inl (no_attribute ''role'')"
proof -
  let ?d = "DictObj [(ascii ''role'', ascii ''user''),
                   (ascii ''content'', add_educational_context lower (content (last msgs)))]"
  from modified_messages_store_valid[OF assms]
  obtain h' m where run: "modified_messages_store lower h a = (h', Inr m)"
    and entries: "map (entry_at h') (list_at h' m) =
       map MessageObj (butlast (recent_messages msgs)) @ [?d]"
    by blast
  from run have m: "m < length h'" by (simp add: modified_messages_store_fresh)
  let ?sys = "EntryObj (DictObj [(ascii ''role'', ascii ''system''), (ascii ''content'', SYSTEM_PROMPT)])"
  let ?h2 = "h' @ [?sys, ListObj [length h']]"
  let ?f = "Suc (length h')"
  have l: "list_at ?h2 m = list_at h' m"
    using m by (simp add: list_at_def nth_append)
  have in_range: "r < length h'" if "r \<in> set (list_at h' m)" for r
  proof -
    from that have "entry_at h' r \<in> set (map (entry_at h') (list_at h' m))" by simp
    then have "entry_at h' r \<noteq> DictObj []" unfolding entries by auto
    then show ?thesis by (rule entry_at_in_range)
  qed
  then have range: "\<forall>r \<in> set (list_at h' m). r < length ?h2 \<and> r \<noteq> ?f" by fastforce
  have "map (entry_at ?h2) (list_at h' m) = map (entry_at h') (list_at h' m)"
  proof (rule map_cong[OF refl])
    fix r assume "r \<in> set (list_at h' m)"
    then have "r < length h'" by (rule in_range)
    then show "entry_at ?h2 r = entry_at h' r" by (simp add: entry_at_def nth_append)
  qed
  with entries have "map (entry_at ?h2) (list_at h' m) =
       map MessageObj (butlast (recent_messages msgs)) @ ?d # []" by simp
  from format_loop_store_dict[OF range this]
  show ?thesis
    using run l by (simp add: chat_store_def format_messages_for_huggingface_store_def alloc_def)
qed

section \<open>Properties of the endpoints\<close>




text \<open>
  Claim C2. \<^verbatim>\<open>detect_cheating_attempt\<close> is true exactly when the lower-case form of the
  text has one of the five keywords as a contiguous part (\<^const>\<open>sublist\<close>), whatever
  function gives the lower-case form. With a function that lowers ASCII text as
  \<^verbatim>\<open>str.lower()\<close> does, it is true of \<^verbatim>\<open>"Just Tell Me the answer"\<close> and false of
  \<^verbatim>\<open>"How does photosynthesis work?"\<close>.
\<close>

theorem detect_cheating_attempt_iff:
  "(detect_cheating_attempt lower t \<longleftrightarrow>
      sublist (ascii ''solve this'') (lower t) \<or> sublist (ascii ''answer this'') (lower t) \<or>
      sublist (ascii ''do my homework'') (lower t) \<or> sublist (ascii ''just tell me'') (lower t) \<or>
      sublist (ascii ''what's the answer'') (lower t)) \<and>
   (lowers_ascii lower \<longrightarrow>
      detect_cheating_attempt lower (ascii ''Just Tell Me the answer'') \<and>
      \<not> detect_cheating_attempt lower (ascii ''How does photosynthesis work?''))"
proof (intro conjI impI)
  show "detect_cheating_attempt lower t \<longleftrightarrow>
      sublist (ascii ''solve this'') (lower t) \<or> sublist (ascii ''answer this'') (lower t) \<or>
      sublist (ascii ''do my homework'') (lower t) \<or> sublist (ascii ''just tell me'') (lower t) \<or>
      sublist (ascii ''what's the answer'') (lower t)"
    by (simp add: detect_cheating_attempt_def cheating_keywords_def str_in_sublist)
next
  assume l: "lowers_ascii lower"
  show "detect_cheating_attempt lower (ascii ''Just Tell Me the answer'')"
    by (simp add: detect_ascii[OF l] detect_just_tell_me)
  show "\<not> detect_cheating_attempt lower (ascii ''How does photosynthesis work?'')"
    by (simp add: detect_ascii[OF l] detect_photosynthesis)
qed

theorem detect_cheating_attempt_iff_witness:
  "lowers_ascii example_lower \<and>
   detect_cheating_attempt example_lower (ascii ''Just Tell Me the answer'') \<and>
   \<not> detect_cheating_attempt example_lower (ascii ''How does photosynthesis work?'') \<and>
   example_lower (ascii ''do my homewor'' @ [0x212A]) = ascii ''do my homework'' \<and>
   detect_cheating_attempt example_lower (ascii ''do my homewor'' @ [0x212A])"
proof -
  note t = detect_cheating_attempt_iff[where lower = example_lower]
  from t example_lower_ascii
  have "detect_cheating_attempt example_lower (ascii ''Just Tell Me the answer'') \<and>
   \<not> detect_cheating_attempt example_lower (ascii ''How does photosynthesis work?'')"
    by blast
  moreover have "sublist (ascii ''do my homework'')
      (example_lower (ascii ''do my homewor'' @ [0x212A]))"
    by (simp only: example_lower_kelvin sublist_order.order_refl)
  with t[where t = "ascii ''do my homewor'' @ [0x212A]"]
  have "detect_cheating_attempt example_lower (ascii ''do my homewor'' @ [0x212A])"
    by blast
  ultimately show ?thesis using example_lower_ascii example_lower_kelvin by blast
qed

text \<open>
  Claim C3. For every conversation that passes the two checks, \<^verbatim>\<open>chat\<close> hands no payload
  to the client: the list given to \<^verbatim>\<open>format_messages_for_huggingface\<close> ends with the
  dictionary assigned at line 165, \<^verbatim>\<open>msg.role\<close> raises \<^verbatim>\<open>AttributeError\<close> on it, and
  the handler answers with status 500. On a list of \<^verbatim>\<open>Message\<close> objects alone, as its
  signature declares, the formatting does return the system entry followed by one entry for
  each message.
\<close>

theorem chat_valid_request_fails:
  "(messages request \<noteq> [] \<and> role (last (messages request)) = ascii ''user'' \<longrightarrow>
      chat lower cfg client request =
        Inl (HTTPException 500 (ascii ''Internal server error: '' @ str_exn (no_attribute ''role'')))) \<and>
   format_messages_for_huggingface (map MessageObj (messages request)) =
     Inr ([(ascii ''role'', ascii ''system''), (ascii ''content'', SYSTEM_PROMPT)] #
          map (\<lambda>m. [(ascii ''role'', role m), (ascii ''content'', content m)]) (messages request))"
  by (simp add: chat_valid format_messages_for_huggingface_messages)

theorem chat_valid_request_fails_witness:
  "messages (request_of [user_message ''What is 2 + 2?'']) \<noteq> [] \<and>
   role (last (messages (request_of [user_message ''What is 2 + 2?'']))) = ascii ''user'' \<and>
   chat example_lower example_config example_client (request_of [user_message ''What is 2 + 2?'']) =
     Inl (HTTPException 500 (ascii ''Internal server error: '' @ str_exn (no_attribute ''role'')))"
proof -
  have h: "messages (request_of [user_message ''What is 2 + 2?'']) \<noteq> [] \<and>
     role (last (messages (request_of [user_message ''What is 2 + 2?'']))) = ascii ''user''"
    by (simp add: request_of_def user_message_def)
  from chat_valid_request_fails[where request = "request_of [user_message ''What is 2 + 2?'']"
      and lower = example_lower and cfg = example_config and client = example_client] h
  show ?thesis by blast
qed

text \<open>
  Claim C4. \<^verbatim>\<open>chat\<close> answers an empty conversation with status 400 and
  \<^verbatim>\<open>"No messages provided"\<close>, a conversation whose last message is not from the user with
  status 400 and \<^verbatim>\<open>"Last message must be from user"\<close>, and it answers with status 400 in
  these two cases only.
\<close>

theorem chat_validation:
  "(messages request = [] \<longrightarrow>
      chat lower cfg client request = Inl (HTTPException 400 (ascii ''No messages provided''))) \<and>
   (messages request \<noteq> [] \<and> role (last (messages request)) \<noteq> ascii ''user'' \<longrightarrow>
      chat lower cfg client request = Inl (HTTPException 400 (ascii ''Last message must be from user''))) \<and>
   ((\<exists>detail. chat lower cfg client request = Inl (HTTPException 400 detail)) \<longleftrightarrow>
      messages request = [] \<or> role (last (messages request)) \<noteq> ascii ''user'')"
proof -
  consider (empty) "messages request = []"
    | (not_user) "messages request \<noteq> []" "role (last (messages request)) \<noteq> ascii ''user''"
    | (valid) "messages request \<noteq> []" "role (last (messages request)) = ascii ''user''"
    by blast
  then show ?thesis
  proof cases
    case empty
    then show ?thesis by (simp add: chat_empty)
  next
    case not_user
    then show ?thesis by (simp add: chat_not_user)
  next
    case valid
    then show ?thesis by (simp add: chat_valid)
  qed
qed

theorem chat_validation_witness:
  "messages (request_of []) = [] \<and>
   chat example_lower example_config example_client (request_of []) =
     Inl (HTTPException 400 (ascii ''No messages provided'')) \<and>
   messages (request_of [user_message ''hi'', assistant_message ''hello'']) \<noteq> [] \<and>
   role (last (messages (request_of [user_message ''hi'', assistant_message ''hello'']))) \<noteq> ascii ''user'' \<and>
   chat example_lower example_config example_client (request_of [user_message ''hi'', assistant_message ''hello'']) =
     Inl (HTTPException 400 (ascii ''Last message must be from user'')) \<and>
   role (last (messages (request_of [user_message ''hi'']))) = ascii ''user'' \<and>
   \<not> (\<exists>detail. chat example_lower example_config example_client (request_of [user_message ''hi'']) =
         Inl (HTTPException 400 detail))"
proof -
  have e: "messages (request_of []) = []" by (simp add: request_of_def)
  have a: "messages (request_of [user_message ''hi'', assistant_message ''hello'']) \<noteq> [] \<and>
     role (last (messages (request_of [user_message ''hi'', assistant_message ''hello'']))) \<noteq> ascii ''user''"
    by (simp add: request_of_def assistant_message_def assistant_not_user)
  have u: "messages (request_of [user_message ''hi'']) \<noteq> []"
     "role (last (messages (request_of [user_message ''hi'']))) = ascii ''user''"
    by (simp_all add: request_of_def user_message_def)
  from chat_validation[where request = "request_of []" and lower = example_lower
      and cfg = example_config and client = example_client] e
  have 1: "chat example_lower example_config example_client (request_of []) =
     Inl (HTTPException 400 (ascii ''No messages provided''))" by blast
  from chat_validation[where request = "request_of [user_message ''hi'', assistant_message ''hello'']"
      and lower = example_lower and cfg = example_config and client = example_client] a
  have 2: "chat example_lower example_config example_client (request_of [user_message ''hi'', assistant_message ''hello'']) =
     Inl (HTTPException 400 (ascii ''Last message must be from user''))" by blast
  from chat_validation[where request = "request_of [user_message ''hi'']" and lower = example_lower
      and cfg = example_config and client = example_client] u
  have 3: "\<not> (\<exists>detail. chat example_lower example_config example_client (request_of [user_message ''hi'']) =
         Inl (HTTPException 400 detail))" by blast
  from e a u 1 2 3 show ?thesis by blast
qed

text \<open>
  Claim C5. \<^verbatim>\<open>analyze_question\<close> raises status 400 for an empty list of messages inside its
  \<^verbatim>\<open>try\<close> block, and its \<^verbatim>\<open>except Exception\<close> handler turns that into status 500
  with the text of the first exception as detail. For a list that is not empty it returns
  the detector's answer on the content of the last message, and the recommendation that
  goes with it.
\<close>

theorem analyze_question_result:
  "(messages request = [] \<longrightarrow>
      analyze_question lower request =
        Inl (HTTPException 500 (str_exn (HTTPException 400 (ascii ''No messages provided''))))) \<and>
   (messages request \<noteq> [] \<longrightarrow>
      analyze_question lower request =
        Inr \<lparr>is_direct_answer_request =
               detect_cheating_attempt lower (content (last (messages request))),
             recommendation =
               (if detect_cheating_attempt lower (content (last (messages request)))
                then ascii ''Reframe as learning opportunity''
                else ascii ''Safe to answer educationally'')\<rparr>)"
  by (simp add: analyze_question_def analyze_question_try_def getitem_last bind_exn_def Let_def)

theorem analyze_question_result_witness:
  "messages (request_of []) = [] \<and>
   analyze_question example_lower (request_of []) = Inl (HTTPException 500 (ascii ''400: No messages provided'')) \<and>
   messages (request_of [user_message homework_question]) \<noteq> [] \<and>
   analyze_question example_lower (request_of [user_message homework_question]) =
     Inr \<lparr>is_direct_answer_request = True,
          recommendation = ascii ''Reframe as learning opportunity''\<rparr>"
proof -
  have e: "messages (request_of []) = []" by (simp add: request_of_def)
  have n: "messages (request_of [user_message homework_question]) \<noteq> []"
    by (simp add: request_of_def)
  have s: "str_exn (HTTPException 400 (ascii ''No messages provided'')) = ascii ''400: No messages provided''"
    by code_simp
  have l: "content (last (messages (request_of [user_message homework_question]))) =
      ascii homework_question"
    by (simp add: request_of_def user_message_def)
  from analyze_question_result[where request = "request_of []" and lower = example_lower] e s
  have 1: "analyze_question example_lower (request_of []) =
      Inl (HTTPException 500 (ascii ''400: No messages provided''))" by simp
  from analyze_question_result[where request = "request_of [user_message homework_question]"
      and lower = example_lower] n
  have 2: "analyze_question example_lower (request_of [user_message homework_question]) =
     Inr \<lparr>is_direct_answer_request = True,
          recommendation = ascii ''Reframe as learning opportunity''\<rparr>"
    by (simp add: l detect_ascii[OF example_lower_ascii] detect_homework_question)
  from e n 1 2 show ?thesis by blast
qed

text \<open>
  Claim C6. \<^verbatim>\<open>add_educational_context\<close> puts the marker
  \<^verbatim>\<open>[GUIDE LEARNING] Student asking for direct answer: \<close> before a text that the detector
  flags, and returns any other text as it is. For the conversation of the single user
  message \<^verbatim>\<open>What's the answer to this homework question?\<close>, an ASCII text, the detector
  is true, and the content of the last entry of \<^verbatim>\<open>modified_messages\<close> (line 165) contains
  the marker tag and the original text.
\<close>

theorem add_educational_context_marker:
  "add_educational_context lower t =
     (if detect_cheating_attempt lower t
      then ascii ''[GUIDE LEARNING] Student asking for direct answer: '' @ t else t) \<and>
   (lowers_ascii lower \<longrightarrow>
      detect_cheating_attempt lower (ascii homework_question) \<and>
      (\<exists>c. modified_messages lower [user_message homework_question] =
             Inr [DictObj [(ascii ''role'', ascii ''user''), (ascii ''content'', c)]] \<and>
           sublist (ascii ''[GUIDE LEARNING]'') c \<and> sublist (ascii homework_question) c))"
proof (intro conjI impI)
  show "add_educational_context lower t =
     (if detect_cheating_attempt lower t
      then ascii ''[GUIDE LEARNING] Student asking for direct answer: '' @ t else t)"
    by (simp add: add_educational_context_def guide_marker_def)
next
  assume l: "lowers_ascii lower"
  show d: "detect_cheating_attempt lower (ascii homework_question)"
    by (simp add: detect_ascii[OF l] detect_homework_question)
  let ?c = "guide_marker @ ascii homework_question"
  have c: "add_educational_context lower (ascii homework_question) = ?c"
    using d by (simp add: add_educational_context_def)
  have "modified_messages lower [user_message homework_question] =
          Inr [DictObj [(ascii ''role'', ascii ''user''), (ascii ''content'', ?c)]]"
    using modified_messages_valid[of "[user_message homework_question]" lower]
    by (simp add: user_message_def recent_messages_short c)
  moreover have "sublist (ascii ''[GUIDE LEARNING]'') ?c"
  proof -
    have g: "guide_marker =
        ascii ''[GUIDE LEARNING]'' @ ascii '' Student asking for direct answer: ''"
      by (simp add: guide_marker_def ascii_def)
    show ?thesis unfolding g append_assoc by (rule sublist_append_rightI)
  qed
  moreover have "sublist (ascii homework_question) ?c" by simp
  ultimately show "\<exists>c. modified_messages lower [user_message homework_question] =
             Inr [DictObj [(ascii ''role'', ascii ''user''), (ascii ''content'', c)]] \<and>
           sublist (ascii ''[GUIDE LEARNING]'') c \<and> sublist (ascii homework_question) c"
    by blast
qed

theorem add_educational_context_marker_witness:
  "lowers_ascii example_lower \<and>
   detect_cheating_attempt example_lower (ascii homework_question) \<and>
   add_educational_context example_lower (ascii homework_question) =
     ascii ''[GUIDE LEARNING] Student asking for direct answer: '' @ ascii homework_question \<and>
   (\<exists>c. modified_messages example_lower [user_message homework_question] =
          Inr [DictObj [(ascii ''role'', ascii ''user''), (ascii ''content'', c)]] \<and>
        sublist (ascii ''[GUIDE LEARNING]'') c \<and> sublist (ascii homework_question) c)"
proof -
  note t = add_educational_context_marker[where lower = example_lower]
  from t example_lower_ascii
  have d: "detect_cheating_attempt example_lower (ascii homework_question)" by blast
  from t[where t = "ascii homework_question"] d
  have a: "add_educational_context example_lower (ascii homework_question) =
     ascii ''[GUIDE LEARNING] Student asking for direct answer: '' @ ascii homework_question"
    by simp
  from t example_lower_ascii
  have "\<exists>c. modified_messages example_lower [user_message homework_question] =
          Inr [DictObj [(ascii ''role'', ascii ''user''), (ascii ''content'', c)]] \<and>
        sublist (ascii ''[GUIDE LEARNING]'') c \<and> sublist (ascii homework_question) c"
    by blast
  with example_lower_ascii d a show ?thesis by blast
qed

text \<open>
  Claim C7. For a conversation that passes the two checks, \<^verbatim>\<open>modified_messages\<close> is the
  recent messages with the last one replaced by a dictionary of role \<^verbatim>\<open>user\<close>, the role
  of the message it replaces, and of content the text with its educational context. The
  formatting of that list, which would put the system entry at position 0, raises
  \<^verbatim>\<open>AttributeError\<close> on the dictionary and returns no list.
\<close>

theorem modified_messages_then_format:
  "msgs \<noteq> [] \<and> role (last msgs) = ascii ''user'' \<longrightarrow>
     modified_messages lower msgs =
       Inr (map MessageObj (butlast (recent_messages msgs)) @
            [DictObj [(ascii ''role'', ascii ''user''),
                      (ascii ''content'', add_educational_context lower (content (last msgs)))]]) \<and>
     bind_exn (modified_messages lower msgs) format_messages_for_huggingface =
       Inl (no_attribute ''role'')"
  by (simp add: modified_messages_valid bind_exn_def format_messages_for_huggingface_def
      format_loop_dict)

theorem modified_messages_then_format_witness:
  "[user_message ''a'', assistant_message ''b'', user_message ''c''] \<noteq> [] \<and>
   role (last [user_message ''a'', assistant_message ''b'', user_message ''c'']) = ascii ''user'' \<and>
   modified_messages example_lower [user_message ''a'', assistant_message ''b'', user_message ''c''] =
     Inr [MessageObj (user_message ''a''), MessageObj (assistant_message ''b''),
          DictObj [(ascii ''role'', ascii ''user''), (ascii ''content'', ascii ''c'')]] \<and>
   bind_exn (modified_messages example_lower [user_message ''a'', assistant_message ''b'', user_message ''c''])
     format_messages_for_huggingface = Inl (no_attribute ''role'')"
proof -
  let ?msgs = "[user_message ''a'', assistant_message ''b'', user_message ''c'']"
  have h: "?msgs \<noteq> [] \<and> role (last ?msgs) = ascii ''user''"
    by (simp add: user_message_def)
  have c: "add_educational_context example_lower (content (last ?msgs)) = ascii ''c''"
    by (simp add: user_message_def add_educational_context_plain)
  have r: "butlast (recent_messages ?msgs) = [user_message ''a'', assistant_message ''b'']"
    by (simp add: recent_messages_short)
  from modified_messages_then_format[where msgs = ?msgs and lower = example_lower] h
  have "modified_messages example_lower ?msgs =
       Inr (map MessageObj (butlast (recent_messages ?msgs)) @
            [DictObj [(ascii ''role'', ascii ''user''),
                      (ascii ''content'', add_educational_context example_lower (content (last ?msgs)))]])"
    and f: "bind_exn (modified_messages example_lower ?msgs) format_messages_for_huggingface =
       Inl (no_attribute ''role'')"
    by blast+
  then have "modified_messages example_lower ?msgs =
     Inr [MessageObj (user_message ''a''), MessageObj (assistant_message ''b''),
          DictObj [(ascii ''role'', ascii ''user''), (ascii ''content'', ascii ''c'')]]"
    by (simp only: c r list.map append.simps)
  with h f show ?thesis by blast
qed

text \<open>
  Claim C8. \<^verbatim>\<open>chat\<close> leaves the conversation of the caller as it was. In a store where
  \<open>a\<close> is the list of messages of the request, after the handler has run (to the
  exception it raises, or to the call of the client) every object of the store before the
  call is unchanged at its address; so the list at \<open>a\<close> holds the same references and each
  of them leads to the same \<^verbatim>\<open>Message\<close>, with its role and content. For a conversation
  that passes the two checks, the list that line 165 assigns to is a new one: its address
  is not an address of the store before the call, and is not \<open>a\<close>, also when
  \<^verbatim>\<open>recent_messages\<close> is the list of the request itself; read through the store, it is
  the list \<open>modified_messages\<close> of the model on values.
\<close>

theorem chat_store_frame:
  assumes "valid_request h a"
  shows "prefix h (fst (chat_store lower h a)) \<and>
     list_at (fst (chat_store lower h a)) a = list_at h a \<and>
     map (entry_at (fst (chat_store lower h a))) (list_at h a) = map (entry_at h) (list_at h a) \<and>
     (\<forall>msgs.
        map (entry_at h) (list_at h a) = map MessageObj msgs \<and>
        msgs \<noteq> [] \<and> role (last msgs) = ascii ''user'' \<longrightarrow>
        (\<exists>h' modified.
           modified_messages_store lower h a = (h', Inr modified) \<and>
           length h \<le> modified \<and> modified \<noteq> a \<and>
           Inr (map (entry_at h') (list_at h' modified)) = modified_messages lower msgs))"
proof -
  have p: "prefix h (fst (chat_store lower h a))" by (rule chat_store_prefix)
  have l: "list_at (fst (chat_store lower h a)) a = list_at h a"
    using p valid_request_addr[OF assms] by (rule prefix_list_at)
  have e: "map (entry_at (fst (chat_store lower h a))) (list_at h a) = map (entry_at h) (list_at h a)"
    by (rule map_cong[OF refl]) (simp add: prefix_entry_at[OF p] valid_request_refs[OF assms])
  have n: "\<exists>h' modified.
           modified_messages_store lower h a = (h', Inr modified) \<and>
           length h \<le> modified \<and> modified \<noteq> a \<and>
           Inr (map (entry_at h') (list_at h' modified)) = modified_messages lower msgs"
    if refs: "map (entry_at h) (list_at h a) = map MessageObj msgs"
      and ne: "msgs \<noteq> []" and user: "role (last msgs) = ascii ''user''" for msgs
  proof -
    from modified_messages_store_valid[OF valid_request_addr[OF assms] refs ne user]
    obtain h' modified where run: "modified_messages_store lower h a = (h', Inr modified)"
      and entries: "map (entry_at h') (list_at h' modified) =
        map MessageObj (butlast (recent_messages msgs)) @
          [DictObj [(ascii ''role'', ascii ''user''),
                    (ascii ''content'', add_educational_context lower (content (last msgs)))]]"
      by blast
    from run have "length h \<le> modified" by (simp add: modified_messages_store_fresh)
    moreover from this have "modified \<noteq> a" using valid_request_addr[OF assms] by simp
    moreover have "Inr (map (entry_at h') (list_at h' modified)) = modified_messages lower msgs"
      by (simp add: entries modified_messages_valid[OF ne user])
    ultimately show ?thesis using run by blast
  qed
  from p l e n show ?thesis by blast
qed

theorem chat_store_frame_witness:
  "valid_request example_store 3 \<and>
   map (entry_at example_store) (list_at example_store 3) =
     map MessageObj
       [user_message ''hello'', assistant_message ''hi, what are you studying?'',
        user_message ''just tell me the result''] \<and>
   role (last [user_message ''hello'', assistant_message ''hi, what are you studying?'',
               user_message ''just tell me the result'']) = ascii ''user'' \<and>
   (\<exists>h' modified.
      modified_messages_store example_lower example_store 3 = (h', Inr modified) \<and>
      length example_store \<le> modified \<and> modified \<noteq> 3 \<and>
      Inr (map (entry_at h') (list_at h' modified)) =
        modified_messages example_lower
          [user_message ''hello'', assistant_message ''hi, what are you studying?'',
           user_message ''just tell me the result'']) \<and>
   list_at (fst (chat_store example_lower example_store 3)) 3 = [0, 1, 2] \<and>
   map (entry_at (fst (chat_store example_lower example_store 3))) [0, 1, 2] =
     [MessageObj (user_message ''hello''),
      MessageObj (assistant_message ''hi, what are you studying?''),
      MessageObj (user_message ''just tell me the result'')]"
proof -
  let ?msgs = "[user_message ''hello'', assistant_message ''hi, what are you studying?'',
        user_message ''just tell me the result'']"
  have v: "valid_request example_store 3" by code_simp
  have l: "list_at example_store 3 = [0, 1, 2]" by code_simp
  have e: "map (entry_at example_store) [0, 1, 2] =
     [MessageObj (user_message ''hello''),
      MessageObj (assistant_message ''hi, what are you studying?''),
      MessageObj (user_message ''just tell me the result'')]" by code_simp
  have m: "map (entry_at example_store) (list_at example_store 3) = map MessageObj ?msgs"
    using e by (simp add: l)
  have u: "?msgs \<noteq> [] \<and> role (last ?msgs) = ascii ''user''" by (simp add: user_message_def)
  note f = chat_store_frame[OF v, where lower = example_lower]
  from f m u have "\<exists>h' modified.
      modified_messages_store example_lower example_store 3 = (h', Inr modified) \<and>
      length example_store \<le> modified \<and> modified \<noteq> 3 \<and>
      Inr (map (entry_at h') (list_at h' modified)) = modified_messages example_lower ?msgs"
    by blast
  moreover from f l have "list_at (fst (chat_store example_lower example_store 3)) 3 = [0, 1, 2]" by simp
  moreover from f l e have "map (entry_at (fst (chat_store example_lower example_store 3))) [0, 1, 2] =
     [MessageObj (user_message ''hello''),
      MessageObj (assistant_message ''hi, what are you studying?''),
      MessageObj (user_message ''just tell me the result'')]" by simp
  ultimately show ?thesis using v m u by blast
qed

text \<open>
  Claim C9. Adding the educational context does not change what the detector says: the
  detector gives the same answer on \<^verbatim>\<open>add_educational_context(t)\<close> as on \<open>t\<close>. The fact
  used about \<^verbatim>\<open>str.lower()\<close> is \<open>lowers_after\<close> for the marker: the lower-case form of
  the marker followed by \<open>t\<close> ends with the lower-case form of \<open>t\<close>.
\<close>

theorem detect_add_educational_context:
  assumes "lowers_after guide_marker lower"
  shows "detect_cheating_attempt lower (add_educational_context lower t) =
    detect_cheating_attempt lower t"
proof (cases "detect_cheating_attempt lower t")
  case True
  then show ?thesis
    unfolding add_educational_context_def by (simp only: if_True detect_after[OF assms])
next
  case False
  then show ?thesis by (simp add: add_educational_context_def)
qed

theorem detect_add_educational_context_witness:
  "lowers_after guide_marker example_lower \<and>
   detect_cheating_attempt example_lower (ascii ''just tell me'') \<and>
   detect_cheating_attempt example_lower
     (add_educational_context example_lower (ascii ''just tell me'')) =
   detect_cheating_attempt example_lower (ascii ''just tell me'') \<and>
   \<not> detect_cheating_attempt example_lower (ascii ''hi'') \<and>
   detect_cheating_attempt example_lower (add_educational_context example_lower (ascii ''hi'')) =
   detect_cheating_attempt example_lower (ascii ''hi'')"
proof -
  note t = detect_add_educational_context[OF example_lower_after[of guide_marker]]
  have "detect_cheating_attempt example_lower (ascii ''just tell me'')" by code_simp
  moreover have "\<not> detect_cheating_attempt example_lower (ascii ''hi'')" by code_simp
  ultimately show ?thesis
    using t[of "ascii ''just tell me''"] t[of "ascii ''hi''"] example_lower_after[of guide_marker]
    by blast
qed

text \<open>
  Claim C10. When the formatting of the messages returns a list, the client is called with
  \<^verbatim>\<open>request.max_tokens or MAX_TOKENS\<close> and \<^verbatim>\<open>request.temperature or TEMPERATURE\<close>,
  which are the default for \<open>None\<close> and for zero and the value of the request otherwise.
  The formatting is the first argument of the call and raises for every list that lines 149
  to 165 produce: in \<^verbatim>\<open>chat\<close> the call to the client is not reached, and no value is
  passed to it.
\<close>

theorem chat_completion_call_arguments:
  "(format_messages_for_huggingface entries = Inr formatted \<longrightarrow>
      chat_completion_call cfg client request entries =
        client \<lparr>cc_messages = formatted,
                cc_max_tokens = py_or (max_tokens request) (MAX_TOKENS cfg),
                cc_temperature = py_or (temperature request) (TEMPERATURE cfg),
                cc_top_p = TOP_P cfg,
                cc_top_k = TOP_K cfg\<rparr>) \<and>
   py_or None d = d \<and> py_or (Some 0) d = d \<and> (v \<noteq> 0 \<longrightarrow> py_or (Some v) d = v) \<and>
   (modified_messages lower (messages request) = Inr modified \<longrightarrow>
      chat_completion_call cfg client request modified = Inl (no_attribute ''role''))"
proof (intro conjI impI)
  assume "format_messages_for_huggingface entries = Inr formatted"
  then show "chat_completion_call cfg client request entries =
        client \<lparr>cc_messages = formatted,
                cc_max_tokens = py_or (max_tokens request) (MAX_TOKENS cfg),
                cc_temperature = py_or (temperature request) (TEMPERATURE cfg),
                cc_top_p = TOP_P cfg,
                cc_top_k = TOP_K cfg\<rparr>"
    by (simp add: chat_completion_call_def bind_exn_def)
next
  assume m: "modified_messages lower (messages request) = Inr modified"
  from modified_messages_Inr[OF m] modified_messages_valid[where msgs = "messages request" and lower = lower] m
  have "format_messages_for_huggingface modified = Inl (no_attribute ''role'')"
    by (auto simp: format_messages_for_huggingface_def format_loop_dict)
  then show "chat_completion_call cfg client request modified = Inl (no_attribute ''role'')"
    by (simp add: chat_completion_call_def bind_exn_def)
qed (simp_all add: py_or_def)

theorem chat_completion_call_arguments_witness:
  "format_messages_for_huggingface [MessageObj (user_message ''hi'')] =
     Inr [[(ascii ''role'', ascii ''system''), (ascii ''content'', SYSTEM_PROMPT)],
          [(ascii ''role'', ascii ''user''), (ascii ''content'', ascii ''hi'')]] \<and>
   chat_completion_call example_config example_client zero_request
     [MessageObj (user_message ''hi'')] =
     example_client
       \<lparr>cc_messages =
          [[(ascii ''role'', ascii ''system''), (ascii ''content'', SYSTEM_PROMPT)],
           [(ascii ''role'', ascii ''user''), (ascii ''content'', ascii ''hi'')]],
        cc_max_tokens = MAX_TOKENS example_config,
        cc_temperature = TEMPERATURE example_config,
        cc_top_p = TOP_P example_config,
        cc_top_k = TOP_K example_config\<rparr> \<and>
   (7 :: int) \<noteq> 0 \<and> py_or (Some 7) (MAX_TOKENS example_config) = 7 \<and>
   modified_messages example_lower (messages zero_request) =
     Inr [DictObj [(ascii ''role'', ascii ''user''), (ascii ''content'', ascii ''hi'')]] \<and>
   chat_completion_call example_config example_client zero_request
     [DictObj [(ascii ''role'', ascii ''user''), (ascii ''content'', ascii ''hi'')]] = Inl (no_attribute ''role'')"
proof -
  let ?entries = "[MessageObj (user_message ''hi'')]"
  let ?formatted = "[[(ascii ''role'', ascii ''system''), (ascii ''content'', SYSTEM_PROMPT)],
          [(ascii ''role'', ascii ''user''), (ascii ''content'', ascii ''hi'')]]"
  let ?modified = "[DictObj [(ascii ''role'', ascii ''user''), (ascii ''content'', ascii ''hi'')]]"
  have f: "format_messages_for_huggingface ?entries = Inr ?formatted"
    using format_messages_for_huggingface_messages[of "[user_message ''hi'']"]
    by (simp add: user_message_def)
  have m: "modified_messages example_lower (messages zero_request) = Inr ?modified"
    using modified_messages_valid[where msgs = "messages zero_request" and lower = example_lower]
    by (simp add: zero_request_def user_message_def recent_messages_short
        add_educational_context_plain)
  have v: "(7 :: int) \<noteq> 0" by simp
  note t = chat_completion_call_arguments[where request = zero_request and cfg = example_config
      and lower = example_lower
      and client = example_client]
  from t[where entries = ?entries and formatted = ?formatted] f
  have "chat_completion_call example_config example_client zero_request ?entries =
     example_client
       \<lparr>cc_messages = ?formatted,
        cc_max_tokens = py_or (max_tokens zero_request) (MAX_TOKENS example_config),
        cc_temperature = py_or (temperature zero_request) (TEMPERATURE example_config),
        cc_top_p = TOP_P example_config,
        cc_top_k = TOP_K example_config\<rparr>" by blast
  moreover from t[where d = "MAX_TOKENS example_config"]
  have "py_or (max_tokens zero_request) (MAX_TOKENS example_config) = MAX_TOKENS example_config"
    by (simp add: zero_request_def)
  moreover from t[where d = "TEMPERATURE example_config"]
  have "py_or (temperature zero_request) (TEMPERATURE example_config) =
      TEMPERATURE example_config"
    by (simp add: zero_request_def)
  ultimately have 1:
    "chat_completion_call example_config example_client zero_request ?entries =
     example_client
       \<lparr>cc_messages = ?formatted,
        cc_max_tokens = MAX_TOKENS example_config,
        cc_temperature = TEMPERATURE example_config,
        cc_top_p = TOP_P example_config,
        cc_top_k = TOP_K example_config\<rparr>" by simp
  from t[where v = 7 and d = "MAX_TOKENS example_config"] v
  have 2: "py_or (Some 7) (MAX_TOKENS example_config) = 7" by blast
  from t[where modified = ?modified] m
  have 3: "chat_completion_call example_config example_client zero_request ?modified =
      Inl (no_attribute ''role'')" by blast
  from f 1 v 2 m 3 show ?thesis by blast
qed

end
